theory Spec2Isabelle
  imports Complex_Main
begin

section \<open>Configuration constants (src/app/page.tsx, lines 7-12)\<close>

definition OPENING_HOUR :: nat where
  "OPENING_HOUR = 10"

definition CLOSING_HOUR :: nat where
  "CLOSING_HOUR = 22"

definition TOTAL_SLOTS_PER_DAY :: nat where
  "TOTAL_SLOTS_PER_DAY = CLOSING_HOUR - OPENING_HOUR"

definition MAX_CAPACITY_PER_SLOT :: nat where
  "MAX_CAPACITY_PER_SLOT = 1"

definition TICKET_PRICE :: int where
  "TICKET_PRICE = 50000"

definition MAX_SEATS_PER_SESSION :: nat where
  "MAX_SEATS_PER_SESSION = 40"

section \<open>Numbers as text\<close>

text \<open>
  \<^verbatim>\<open>String(n)\<close> and the template literal \<^verbatim>\<open>${n}\<close> of a non-negative integer: its
  decimal digits.
\<close>

fun String_nat :: "nat \<Rightarrow> string" where
  "String_nat n =
     (if n < 10 then [''0123456789'' ! n]
      else String_nat (n div 10) @ [''0123456789'' ! (n mod 10)])"

definition String_int :: "int \<Rightarrow> string" where
  "String_int i = (if i < 0 then ''-'' @ String_nat (nat (- i)) else String_nat (nat i))"

text \<open>\<^verbatim>\<open>s.padStart(n, c)\<close> for a one-character pad \<open>c\<close>.\<close>

definition padStart :: "string \<Rightarrow> nat \<Rightarrow> char \<Rightarrow> string" where
  "padStart s n c = replicate (n - length s) c @ s"

section \<open>The daily schedule (lines 25-33)\<close>

text \<open>
  \<^verbatim>\<open>for (let i = OPENING_HOUR; i < CLOSING_HOUR; i++) slots.push(`${i}:00`)\<close>:
  the loop counter and the array built so far are the arguments.
\<close>

function generateTimeSlots_loop :: "nat \<Rightarrow> string list \<Rightarrow> string list" where
  "generateTimeSlots_loop i slots =
     (if i < CLOSING_HOUR
      then generateTimeSlots_loop (i + 1) (slots @ [String_nat i @ '':00''])
      else slots)"
  by pat_completeness auto
termination
  by (relation "measure (\<lambda>p. CLOSING_HOUR - fst p)") auto

definition generateTimeSlots :: "string list" where
  "generateTimeSlots = generateTimeSlots_loop OPENING_HOUR []"

definition TIME_SLOTS :: "string list" where
  "TIME_SLOTS = generateTimeSlots"

section \<open>Data model (lines 35-48)\<close>

text \<open>
  The optional numeric fields \<^verbatim>\<open>price?\<close> and \<^verbatim>\<open>amount?\<close> are \<open>None\<close> when absent.
  Every price the program writes is the integer \<open>TICKET_PRICE\<close>.
\<close>

record booking =
  booking_id :: string
  date :: string
  time :: string
  createdAt :: string
  status :: string
  price :: "int option"
  amount :: "int option"

datatype ntype = N_success | N_error | N_info

record notification =
  type :: ntype
  message :: string

datatype view = V_calendar | V_slots | V_payment | V_dashboard

datatype paymentStatus = P_idle | P_processing | P_success | P_failed

text \<open>
  A JavaScript \<^verbatim>\<open>Date\<close> built by \<^verbatim>\<open>new Date(year, month, day)\<close>, seen through the
  getters the program calls on it: its time value in milliseconds and its local calendar
  fields (the month counts from 0).
\<close>

record jsdate =
  getTime :: int
  getFullYear :: int
  getMonth :: nat
  getDate :: nat

text \<open>
  \<^verbatim>\<open>new Date(str).getTime()\<close> is the platform's: a parameter of the model, of this
  type. \<open>None\<close> stands for the \<^verbatim>\<open>NaN\<close> of an invalid date, \<open>Some t\<close> for the time
  value \<open>t\<close> in milliseconds. The current time \<^verbatim>\<open>new Date().getTime()\<close> is always a
  number and is passed as an \<open>int\<close>.
\<close>

type_synonym dateParser = "string \<Rightarrow> int option"

text \<open>\<^verbatim>\<open>x < now\<close> on numbers where \<open>x\<close> may be \<^verbatim>\<open>NaN\<close>: every comparison with \<^verbatim>\<open>NaN\<close> is false.\<close>

definition num_lt :: "int option \<Rightarrow> int \<Rightarrow> bool" where
  "num_lt x now = (case x of None \<Rightarrow> False | Some t \<Rightarrow> t < now)"

text \<open>Lines 50-56.\<close>

definition getLocalDateString :: "jsdate \<Rightarrow> string" where
  "getLocalDateString d =
     (let year = getFullYear d;
          month = padStart (String_nat (getMonth d + 1)) 2 CHR ''0'';
          day = padStart (String_nat (getDate d)) 2 CHR ''0''
      in String_int year @ ''-'' @ month @ ''-'' @ day)"

section \<open>Availability rules (lines 134-171)\<close>

definition isDateFull :: "booking list \<Rightarrow> string \<Rightarrow> bool" where
  "isDateFull bookings dateStr =
     (let daysBookings = filter (\<lambda>b. date b = dateStr) bookings
      in length daysBookings \<ge> length TIME_SLOTS * MAX_CAPACITY_PER_SLOT)"

definition getSessionBookings :: "booking list \<Rightarrow> string \<Rightarrow> string \<Rightarrow> booking list" where
  "getSessionBookings bookings dateStr tm =
     filter (\<lambda>b. date b = dateStr \<and> time b = tm) bookings"

definition isSlotFull :: "booking list \<Rightarrow> string \<Rightarrow> string \<Rightarrow> bool" where
  "isSlotFull bookings dateStr tm =
     (length (getSessionBookings bookings dateStr tm) \<ge> MAX_SEATS_PER_SESSION)"

definition hasUserBookedSession :: "booking list \<Rightarrow> string \<Rightarrow> string \<Rightarrow> bool" where
  "hasUserBookedSession bookings dateStr tm =
     (length (getSessionBookings bookings dateStr tm) > 0)"

definition isSlotTaken :: "dateParser \<Rightarrow> int \<Rightarrow> booking list \<Rightarrow> string \<Rightarrow> string \<Rightarrow> bool" where
  "isSlotTaken parse now bookings dateStr tm =
     (if isSlotFull bookings dateStr tm then True
      else let slotDateTime = parse (dateStr @ ''T'' @ tm)
           in if num_lt slotDateTime now then True
              else if hasUserBookedSession bookings dateStr tm then True
              else False)"

text \<open>
  \<open>diffInHours\<close> is the quotient of an integer number of milliseconds by 3600000. The
  source computes it in double precision; the quotient is kept exact here. The only use
  of it is the comparison with 12, and correct rounding is monotone and leaves 12
  unchanged, while the nearest quotient above 12 (43200001 ms) is far more than one unit
  in the last place away from it, so the comparison has the same outcome.
\<close>

definition checkRescheduleValidity :: "dateParser \<Rightarrow> int \<Rightarrow> booking \<Rightarrow> bool" where
  "checkRescheduleValidity parse now b =
     (let bookingDateTime = parse (date b @ ''T'' @ time b)
      in if num_lt bookingDateTime now then False
         else case bookingDateTime of
                None \<Rightarrow> False
              | Some t \<Rightarrow>
                  (let diffInHours = (of_int (t - now) :: rat) / (1000 * 60 * 60)
                   in diffInHours > 12))"

section \<open>Component state and actions (lines 94-123, 174-246)\<close>

text \<open>
  The \<^verbatim>\<open>useState\<close> cells of the component that the actions read or write.
  \<^verbatim>\<open>currentMonth\<close> only drives the calendar grid and is left out: the day button hands
  \<open>handleDayClick\<close> the date it builds from it.
\<close>

record state =
  selectedDate :: "jsdate option"
  view :: view
  pendingBooking :: "booking option"
  showXenditModal :: bool
  paymentStatus :: paymentStatus
  bookings :: "booking list"
  notification :: "notification option"

text \<open>
  The initial list of lines 103-122. Its two dates and two timestamps come from the
  clock (\<^verbatim>\<open>toISOString\<close>) and are parameters.
\<close>

definition initialBookings :: "string \<Rightarrow> string \<Rightarrow> string \<Rightarrow> string \<Rightarrow> booking list" where
  "initialBookings tomorrowIso todayIso created1 created2 =
     [\<lparr>booking_id = ''demo-1'', date = tomorrowIso, time = ''10:00'', createdAt = created1,
       status = ''PAID'', price = Some 50000, amount = Some 50000\<rparr>,
      \<lparr>booking_id = ''demo-2'', date = todayIso, time = ''12:00'', createdAt = created2,
       status = ''PAID'', price = Some 50000, amount = Some 50000\<rparr>]"

definition initialState :: "string \<Rightarrow> string \<Rightarrow> string \<Rightarrow> string \<Rightarrow> state" where
  "initialState tomorrowIso todayIso created1 created2 =
     \<lparr>selectedDate = None, view = V_calendar, pendingBooking = None,
      showXenditModal = False, paymentStatus = P_idle,
      bookings = initialBookings tomorrowIso todayIso created1 created2,
      notification = None\<rparr>"

text \<open>
  \<open>handleDayClick\<close>: \<open>d\<close> is \<^verbatim>\<open>new Date(currentMonth.getFullYear(), currentMonth.getMonth(), day)\<close>
  and \<open>today\<close> the time value of today's local midnight.
\<close>

definition handleDayClick :: "state \<Rightarrow> jsdate \<Rightarrow> int \<Rightarrow> state" where
  "handleDayClick s d today =
     (if getTime d < today then s
      else s\<lparr>selectedDate := Some d, view := V_slots\<rparr>)"

text \<open>
  \<open>handleSlotSelection\<close>: \<open>rnd\<close> is \<^verbatim>\<open>Math.random().toString(36).substr(2, 9)\<close> and
  \<open>nowIso\<close> is \<^verbatim>\<open>new Date().toISOString()\<close>.
\<close>

definition handleSlotSelection :: "state \<Rightarrow> string \<Rightarrow> string \<Rightarrow> string \<Rightarrow> state" where
  "handleSlotSelection s tm rnd nowIso =
     (case selectedDate s of
        None \<Rightarrow> s
      | Some d \<Rightarrow>
          (let dateStr = getLocalDateString d
           in s\<lparr>pendingBooking :=
                   Some \<lparr>booking_id = rnd, date = dateStr, time = tm, createdAt = nowIso,
                         status = ''PENDING'', price = Some TICKET_PRICE, amount = None\<rparr>,
                 view := V_payment\<rparr>))"

definition handleInitiatePayment :: "state \<Rightarrow> state" where
  "handleInitiatePayment s = s\<lparr>showXenditModal := True, paymentStatus := P_idle\<rparr>"

text \<open>
  \<open>finalizeBooking\<close> (lines 212-224) on the state \<open>s\<close> whose values it reads, written
  to that same state. \<open>formatDate\<close> (lines 15-19) is \<^verbatim>\<open>Intl.DateTimeFormat\<close>, a
  parameter.
\<close>

definition finalizeBooking :: "(jsdate \<Rightarrow> string) \<Rightarrow> state \<Rightarrow> state" where
  "finalizeBooking formatDate s =
     (case pendingBooking s of
        None \<Rightarrow> s
      | Some p \<Rightarrow>
          (case selectedDate s of
             None \<Rightarrow> s
           | Some d \<Rightarrow>
               (let newBooking = p\<lparr>status := ''PAID'', amount := price p\<rparr>
                in s\<lparr>bookings := bookings s @ [newBooking],
                      notification :=
                        Some \<lparr>type = N_success,
                              message = ''Payment successful! Booked for '' @ formatDate d
                                        @ '' at '' @ time p\<rparr>,
                      showXenditModal := False,
                      pendingBooking := None,
                      view := V_dashboard\<rparr>)))"

text \<open>
  \<open>finalizeBooking\<close> as the program runs it. Its only call is in the second timer of
  \<open>handleConfirmPayment\<close> (lines 202-210), and the function called there is the one of
  the render \<open>r\<close> in which the payment method was clicked: lines 213-220 read the
  \<^verbatim>\<open>pendingBooking\<close>, \<^verbatim>\<open>selectedDate\<close> and \<^verbatim>\<open>bookings\<close> of \<open>r\<close>. The setters of
  lines 219-223 write into the state \<open>s\<close> that is current when the timer fires.
\<close>

definition finalizeBooking_closure :: "(jsdate \<Rightarrow> string) \<Rightarrow> state \<Rightarrow> state \<Rightarrow> state" where
  "finalizeBooking_closure formatDate r s =
     (case pendingBooking r of
        None \<Rightarrow> s
      | Some p \<Rightarrow>
          (case selectedDate r of
             None \<Rightarrow> s
           | Some d \<Rightarrow>
               (let newBooking = p\<lparr>status := ''PAID'', amount := price p\<rparr>
                in s\<lparr>bookings := bookings r @ [newBooking],
                      notification :=
                        Some \<lparr>type = N_success,
                              message = ''Payment successful! Booked for '' @ formatDate d
                                        @ '' at '' @ time p\<rparr>,
                      showXenditModal := False,
                      pendingBooking := None,
                      view := V_dashboard\<rparr>)))"

definition handleCancelBooking :: "dateParser \<Rightarrow> int \<Rightarrow> state \<Rightarrow> string \<Rightarrow> state" where
  "handleCancelBooking parse now s i =
     (let booking = find (\<lambda>b. booking_id b = i) (bookings s)
      in if (case booking of None \<Rightarrow> True
             | Some b \<Rightarrow> \<not> checkRescheduleValidity parse now b)
         then s\<lparr>notification :=
                   Some \<lparr>type = N_error,
                         message = ''Cannot cancel less than 12 hours before.''\<rparr>\<rparr>
         else s\<lparr>bookings := filter (\<lambda>b. booking_id b \<noteq> i) (bookings s),
                notification :=
                  Some \<lparr>type = N_success, message = ''Booking cancelled & refunded.''\<rparr>\<rparr>)"

definition handleRescheduleClick :: "dateParser \<Rightarrow> int \<Rightarrow> state \<Rightarrow> string \<Rightarrow> state" where
  "handleRescheduleClick parse now s i =
     (let booking = find (\<lambda>b. booking_id b = i) (bookings s)
      in if (case booking of None \<Rightarrow> True
             | Some b \<Rightarrow> \<not> checkRescheduleValidity parse now b)
         then s\<lparr>notification :=
                   Some \<lparr>type = N_error,
                         message = ''Cannot reschedule less than 12 hours before.''\<rparr>\<rparr>
         else s\<lparr>bookings := filter (\<lambda>b. booking_id b \<noteq> i) (bookings s),
                notification :=
                  Some \<lparr>type = N_info, message = ''Credit retained. Select a new date.''\<rparr>,
                view := V_calendar\<rparr>)"

section \<open>User interface events\<close>

text \<open>
  The slot button of line 335 carries \<^verbatim>\<open>disabled={taken}\<close>, with
  \<^verbatim>\<open>taken = isSlotTaken(dateStr!, time)\<close> and \<^verbatim>\<open>dateStr\<close> the local date string of the
  selected date. With no selected date \<^verbatim>\<open>dateStr\<close> is \<^verbatim>\<open>undefined\<close>: no booking's
  date equals it, so the two counts are 0 and only the past check on the text
  \<^verbatim>\<open>undefinedT...\<close> is left.
\<close>

definition slotButtonDisabled :: "dateParser \<Rightarrow> int \<Rightarrow> state \<Rightarrow> string \<Rightarrow> bool" where
  "slotButtonDisabled parse now s tm =
     (case selectedDate s of
        None \<Rightarrow> num_lt (parse (''undefined'' @ ''T'' @ tm)) now
      | Some d \<Rightarrow> isSlotTaken parse now (bookings s) (getLocalDateString d) tm)"

text \<open>
  One constructor for each thing that changes the state: the button clicks with the
  values the platform supplies at that moment (current time, random id, timestamps), the
  two timers of \<open>handleConfirmPayment\<close> (lines 202-210), the navigation buttons, the
  modal's close button and the toast timer. A click runs the handler of the current
  render. A timer runs the callback that was created in the render \<open>r\<close> of the payment
  click, so the two timer events carry that render. A disabled slot button delivers no
  click. Every other handler is allowed to run in any state, whichever view is on screen,
  so the event sequences of the user interface are among the ones considered here.
\<close>

datatype event =
    DayClick jsdate int
  | SlotClick string int string string
  | InitiatePayment
  | ConfirmPayment
  | ProcessingTimer state
  | SuccessTimer state
  | CancelClick string int
  | RescheduleClick string int
  | SetView view
  | CloseModal
  | DismissNotification

fun dispatch :: "dateParser \<Rightarrow> (jsdate \<Rightarrow> string) \<Rightarrow> state \<Rightarrow> event \<Rightarrow> state" where
  "dispatch parse formatDate s (DayClick d today) = handleDayClick s d today"
| "dispatch parse formatDate s (SlotClick tm now rnd nowIso) =
     (if slotButtonDisabled parse now s tm then s else handleSlotSelection s tm rnd nowIso)"
| "dispatch parse formatDate s InitiatePayment = handleInitiatePayment s"
| "dispatch parse formatDate s ConfirmPayment = s\<lparr>paymentStatus := P_processing\<rparr>"
| "dispatch parse formatDate s (ProcessingTimer r) = s\<lparr>paymentStatus := P_success\<rparr>"
| "dispatch parse formatDate s (SuccessTimer r) = finalizeBooking_closure formatDate r s"
| "dispatch parse formatDate s (CancelClick i now) = handleCancelBooking parse now s i"
| "dispatch parse formatDate s (RescheduleClick i now) = handleRescheduleClick parse now s i"
| "dispatch parse formatDate s (SetView v) = s\<lparr>view := v\<rparr>"
| "dispatch parse formatDate s CloseModal = s\<lparr>showXenditModal := False\<rparr>"
| "dispatch parse formatDate s DismissNotification = s\<lparr>notification := None\<rparr>"

text \<open>
  The running component: the state of the latest render, and the timers that
  \<open>handleConfirmPayment\<close> has started and that have not fired yet, each with the render
  of its payment click. A payment click starts the 2000 ms timer; when that fires it
  starts the 1500 ms timer of the same callback chain; when that fires,
  \<open>finalizeBooking\<close> of the click's render runs. A timer event for a render with no
  such timer pending does not happen and is skipped. Timers may fire in any order and at
  any moment after they were started.
\<close>

record machine =
  ui :: state
  processingTimers :: "state list"
  successTimers :: "state list"

fun step :: "dateParser \<Rightarrow> (jsdate \<Rightarrow> string) \<Rightarrow> machine \<Rightarrow> event \<Rightarrow> machine" where
  "step parse formatDate m ConfirmPayment =
     m\<lparr>ui := dispatch parse formatDate (ui m) ConfirmPayment,
       processingTimers := processingTimers m @ [ui m]\<rparr>"
| "step parse formatDate m (ProcessingTimer r) =
     (if r \<in> set (processingTimers m)
      then m\<lparr>ui := dispatch parse formatDate (ui m) (ProcessingTimer r),
             processingTimers := remove1 r (processingTimers m),
             successTimers := successTimers m @ [r]\<rparr>
      else m)"
| "step parse formatDate m (SuccessTimer r) =
     (if r \<in> set (successTimers m)
      then m\<lparr>ui := dispatch parse formatDate (ui m) (SuccessTimer r),
             successTimers := remove1 r (successTimers m)\<rparr>
      else m)"
| "step parse formatDate m e = m\<lparr>ui := dispatch parse formatDate (ui m) e\<rparr>"

definition start :: "state \<Rightarrow> machine" where
  "start s = \<lparr>ui = s, processingTimers = [], successTimers = []\<rparr>"

definition run :: "dateParser \<Rightarrow> (jsdate \<Rightarrow> string) \<Rightarrow> state \<Rightarrow> event list \<Rightarrow> state" where
  "run parse formatDate s evs = ui (foldl (step parse formatDate) (start s) evs)"

section \<open>Sample data\<close>

text \<open>
  The unused list \<open>demoBookings\<close> of lines 58-90: a full session (40 seats), a nearly
  full one (39) and one with 10 seats, all today. \<open>today\<close> is today's local date string
  and \<open>created\<close> the timestamp of the moment.
\<close>

definition demoBookings :: "string \<Rightarrow> string \<Rightarrow> booking list" where
  "demoBookings today created =
     map (\<lambda>i. \<lparr>booking_id = ''full-1-'' @ String_nat i, date = today, time = ''10:00'',
               createdAt = created, status = ''PAID'', price = Some 50000,
               amount = Some 50000\<rparr>) [0..<40]
     @ map (\<lambda>i. \<lparr>booking_id = ''almostfull-1-'' @ String_nat i, date = today,
               time = ''12:00'', createdAt = created, status = ''PAID'', price = Some 50000,
               amount = Some 50000\<rparr>) [0..<39]
     @ map (\<lambda>i. \<lparr>booking_id = ''some-1-'' @ String_nat i, date = today, time = ''14:00'',
               createdAt = created, status = ''PAID'', price = Some 50000,
               amount = Some 50000\<rparr>) [0..<10]"

text \<open>
  A date parser for the worked examples: the time values that a machine on UTC gives
  for five date-time texts, and \<^verbatim>\<open>NaN\<close> for every other text.
\<close>

definition utcParse :: dateParser where
  "utcParse str =
     (if str = ''2030-01-01T10:00'' then Some 1893492000000
      else if str = ''2030-01-01T12:00'' then Some 1893499200000
      else if str = ''2030-01-02T10:00'' then Some 1893578400000
      else if str = ''2030-01-03T15:00'' then Some 1893682800000
      else if str = ''2030-01-03T16:00'' then Some 1893686400000
      else None)"

text \<open>The program's initial state when started on 2030-01-01 at 09:00 UTC.\<close>

definition sampleState :: state where
  "sampleState =
     initialState ''2030-01-02'' ''2030-01-01'' ''2030-01-01T09:00:00.000Z''
       ''2030-01-01T09:00:00.000Z''"

definition sampleBooking :: booking where
  "sampleBooking =
     \<lparr>booking_id = ''demo-1'', date = ''2030-01-02'', time = ''10:00'',
      createdAt = ''2030-01-01T09:00:00.000Z'', status = ''PAID'', price = Some 50000,
      amount = Some 50000\<rparr>"

definition sampleBookingToday :: booking where
  "sampleBookingToday =
     \<lparr>booking_id = ''demo-2'', date = ''2030-01-01'', time = ''12:00'',
      createdAt = ''2030-01-01T09:00:00.000Z'', status = ''PAID'', price = Some 50000,
      amount = Some 50000\<rparr>"

text \<open>What \<open>formatDate\<close> prints for the two days of the examples.\<close>

definition sampleFormat :: "jsdate \<Rightarrow> string" where
  "sampleFormat d = (if getDate d = 3 then ''Thu, Jan 3, 2030'' else ''Tue, Jan 1, 2030'')"

text \<open>The day button of 3 January 2030 (local midnight on a UTC machine).\<close>

definition sampleDay :: jsdate where
  "sampleDay = \<lparr>getTime = 1893628800000, getFullYear = 2030, getMonth = 0, getDate = 3\<rparr>"

definition samplePending :: booking where
  "samplePending =
     \<lparr>booking_id = ''k3x9q0z1a'', date = ''2030-01-03'', time = ''15:00'',
      createdAt = ''2030-01-01T09:00:05.000Z'', status = ''PENDING'',
      price = Some TICKET_PRICE, amount = None\<rparr>"

text \<open>Picking 3 January and then the 15:00 slot, five seconds after the start.\<close>

definition selectEvents :: "event list" where
  "selectEvents =
     [DayClick sampleDay 1893456000000,
      SlotClick ''15:00'' 1893488405000 ''k3x9q0z1a'' ''2030-01-01T09:00:05.000Z'']"

text \<open>
  The render in which the payment method is then clicked: the state after
  \<open>selectEvents\<close> and the Pay button.
\<close>

definition paymentRender :: state where
  "paymentRender =
     handleInitiatePayment
       (handleSlotSelection (handleDayClick sampleState sampleDay 1893456000000)
          ''15:00'' ''k3x9q0z1a'' ''2030-01-01T09:00:05.000Z'')"

text \<open>
  Paying: the Pay button, a payment method, and the two timers of that click. Then, back
  on the calendar, the same day and slot are tried again.
\<close>

definition firstTimers :: "event list" where
  "firstTimers = [ProcessingTimer paymentRender, SuccessTimer paymentRender]"

definition payEvents :: "event list" where
  "payEvents = [InitiatePayment, ConfirmPayment] @ firstTimers"

definition rebookEvents :: "event list" where
  "rebookEvents = selectEvents @ payEvents @ [SetView V_calendar] @ selectEvents"

text \<open>
  Two payments that overlap. After the first payment click the user closes the modal,
  goes back to the slots, and (the first timer having fired meanwhile) picks 16:00 and
  clicks a payment method again, all within the 3.5 seconds before the first payment
  is finalized. \<open>secondPaymentRender\<close> is the render of the second payment click: it
  differs from the first in the pending booking only.
\<close>

definition samplePending2 :: booking where
  "samplePending2 =
     \<lparr>booking_id = ''b2ndpick7'', date = ''2030-01-03'', time = ''16:00'',
      createdAt = ''2030-01-01T09:00:08.000Z'', status = ''PENDING'',
      price = Some TICKET_PRICE, amount = None\<rparr>"

definition secondPaymentRender :: state where
  "secondPaymentRender = paymentRender\<lparr>pendingBooking := Some samplePending2\<rparr>"

definition overlapEvents :: "event list" where
  "overlapEvents =
     selectEvents
     @ [InitiatePayment, ConfirmPayment, CloseModal, SetView V_slots,
        ProcessingTimer paymentRender,
        SlotClick ''16:00'' 1893488408000 ''b2ndpick7'' ''2030-01-01T09:00:08.000Z'',
        InitiatePayment, ConfirmPayment, SuccessTimer paymentRender]"

definition secondTimers :: "event list" where
  "secondTimers = [ProcessingTimer secondPaymentRender, SuccessTimer secondPaymentRender]"

text \<open>
  A cancellation during a payment. After the payment click the user closes the modal,
  opens the dashboard and cancels \<^verbatim>\<open>demo-1\<close>, two seconds after picking the slot and
  before the timers of the payment fire.
\<close>

definition cancelDuringPayment :: "event list" where
  "cancelDuringPayment =
     selectEvents
     @ [InitiatePayment, ConfirmPayment, CloseModal, SetView V_dashboard,
        CancelClick ''demo-1'' 1893488407000]"

text \<open>
  A state whose list is \<open>demoBookings\<close> and whose pending booking is for the session
  that already has 40 seats taken.
\<close>

definition fullSessionState :: state where
  "fullSessionState =
     \<lparr>selectedDate =
        Some \<lparr>getTime = 1893456000000, getFullYear = 2030, getMonth = 0, getDate = 1\<rparr>,
      view = V_payment,
      pendingBooking =
        Some \<lparr>booking_id = ''p41stseat'', date = ''2030-01-01'', time = ''10:00'',
              createdAt = ''2030-01-01T09:00:05.000Z'', status = ''PENDING'',
              price = Some TICKET_PRICE, amount = None\<rparr>,
      showXenditModal = True, paymentStatus = P_success,
      bookings = demoBookings ''2030-01-01'' ''2030-01-01T09:00:00.000Z'',
      notification = None\<rparr>"

section \<open>Invariants of the event loop\<close>

definition sessionKey :: "booking \<Rightarrow> string \<times> string" where
  "sessionKey b = (date b, time b)"

text \<open>
  No two bookings of the list share a session, and a pending booking is for a session
  that has no booking yet.
\<close>

definition oneBookingPerSession :: "state \<Rightarrow> bool" where
  "oneBookingPerSession s =
     (distinct (map sessionKey (bookings s))
      \<and> (\<forall>p. pendingBooking s = Some p \<longrightarrow>
             sessionKey p \<notin> set (map sessionKey (bookings s))))"

text \<open>The same of the current state and of every render that a pending timer holds.\<close>

definition machineInv :: "machine \<Rightarrow> bool" where
  "machineInv m =
     (oneBookingPerSession (ui m)
      \<and> list_all oneBookingPerSession (processingTimers m @ successTimers m))"


section \<open>The 12-hour window\<close>

lemma hours_gt_12: "((of_int d :: rat) / (1000 * 60 * 60) > 12) = (d > 12 * 3600000)"
proof -
  have "((of_int d :: rat) / 3600000 > 12) = ((of_int d :: rat) > of_int 43200000)"
    by (simp add: field_simps)
  also have "\<dots> = (d > 43200000)"
    by (simp only: of_int_less_iff)
  finally show ?thesis by simp
qed

text \<open>
  C1. \<open>checkRescheduleValidity\<close> is true exactly when the booking's date and time parse
  to a time value that lies strictly after \<open>now\<close> and strictly more than 12 hours
  (12 * 3600000 ms) after it. In particular it is false when \<open>now\<close> has reached the
  booking's time, false when the distance is 12 hours or less (exactly 12 hours is not
  eligible), and true when the distance exceeds 12 hours. A booking whose date and time
  do not parse is never eligible.
\<close>

theorem checkRescheduleValidity_window:
  "(checkRescheduleValidity parse now b \<longleftrightarrow>
      (\<exists>t. parse (date b @ ''T'' @ time b) = Some t \<and> now < t \<and> 12 * 3600000 < t - now))
   \<and> (\<forall>t. parse (date b @ ''T'' @ time b) = Some t \<longrightarrow>
         (t \<le> now \<longrightarrow> \<not> checkRescheduleValidity parse now b)
       \<and> (t - now \<le> 12 * 3600000 \<longrightarrow> \<not> checkRescheduleValidity parse now b)
       \<and> (12 * 3600000 < t - now \<longrightarrow> checkRescheduleValidity parse now b))
   \<and> (parse (date b @ ''T'' @ time b) = None \<longrightarrow> \<not> checkRescheduleValidity parse now b)"
  unfolding checkRescheduleValidity_def Let_def num_lt_def
  by (cases "parse (date b @ ''T'' @ time b)") (auto simp: hours_gt_12)

text \<open>
  The sample booking starts at 1893578400000. One millisecond more than 12 hours before
  it is eligible; exactly 12 hours before, at its start and after its start it is not.
\<close>

theorem checkRescheduleValidity_window_witness:
  "utcParse (date sampleBooking @ ''T'' @ time sampleBooking) = Some 1893578400000
   \<and> checkRescheduleValidity utcParse 1893535199999 sampleBooking
   \<and> \<not> checkRescheduleValidity utcParse 1893535200000 sampleBooking
   \<and> \<not> checkRescheduleValidity utcParse 1893578400000 sampleBooking
   \<and> \<not> checkRescheduleValidity utcParse 1893578400001 sampleBooking"
proof -
  have p: "utcParse (date sampleBooking @ ''T'' @ time sampleBooking) = Some 1893578400000"
    by (simp add: utcParse_def sampleBooking_def)
  have a: "checkRescheduleValidity utcParse 1893535199999 sampleBooking"
    using checkRescheduleValidity_window [of utcParse 1893535199999 sampleBooking] p by simp
  have b: "\<not> checkRescheduleValidity utcParse 1893535200000 sampleBooking"
    using checkRescheduleValidity_window [of utcParse 1893535200000 sampleBooking] p by simp
  have c: "\<not> checkRescheduleValidity utcParse 1893578400000 sampleBooking"
    using checkRescheduleValidity_window [of utcParse 1893578400000 sampleBooking] p by simp
  have d: "\<not> checkRescheduleValidity utcParse 1893578400001 sampleBooking"
    using checkRescheduleValidity_window [of utcParse 1893578400001 sampleBooking] p by simp
  from p a b c d show ?thesis by blast
qed

section \<open>Cancelling and rescheduling\<close>

lemma find_first_in_set: "find P xs = Some x \<Longrightarrow> x \<in> set xs \<and> P x"
  by (induction xs) (auto split: if_splits)

lemma sample_bookings: "bookings sampleState = [sampleBooking, sampleBookingToday]"
  by (simp add: sampleState_def initialState_def initialBookings_def sampleBooking_def
      sampleBookingToday_def)

lemma sample_valid: "checkRescheduleValidity utcParse 1893488400000 sampleBooking"
  by (simp add: checkRescheduleValidity_def utcParse_def num_lt_def sampleBooking_def
      hours_gt_12)

lemma sample_invalid: "\<not> checkRescheduleValidity utcParse 1893488400000 sampleBookingToday"
  by (simp add: checkRescheduleValidity_def utcParse_def num_lt_def sampleBookingToday_def
      hours_gt_12)

lemma sample_find1:
  "find (\<lambda>b. booking_id b = ''demo-1'') (bookings sampleState) = Some sampleBooking"
  by (simp add: sample_bookings) (simp add: sampleBooking_def)

lemma sample_find2:
  "find (\<lambda>b. booking_id b = ''demo-2'') (bookings sampleState) = Some sampleBookingToday"
  by (simp add: sample_bookings) (simp add: sampleBooking_def sampleBookingToday_def)

lemma sample_filter1:
  "filter (\<lambda>b. booking_id b \<noteq> ''demo-1'') (bookings sampleState) = [sampleBookingToday]"
  by (simp add: sample_bookings) (simp add: sampleBooking_def sampleBookingToday_def)

text \<open>
  C2. \<open>handleCancelBooking\<close> looks the id up with \<^verbatim>\<open>find\<close>. For the booking \<open>b\<close>
  found, \<open>b\<close> is gone from the list afterwards exactly when
  \<open>checkRescheduleValidity\<close> holds for it. When it holds, the new list is the old one
  without the bookings of that id and the toast reports the refund. When it does not
  hold, the cancellation is declined: the toast is the error
  \<^verbatim>\<open>Cannot cancel less than 12 hours before.\<close> and nothing else of the state changes,
  so the booking list is the same list.
\<close>

theorem handleCancelBooking_iff_valid:
  assumes "find (\<lambda>b. booking_id b = i) (bookings s) = Some b"
  shows "(b \<notin> set (bookings (handleCancelBooking parse now s i))
            \<longleftrightarrow> checkRescheduleValidity parse now b)
       \<and> (checkRescheduleValidity parse now b \<longrightarrow>
            handleCancelBooking parse now s i =
              s\<lparr>bookings := filter (\<lambda>b. booking_id b \<noteq> i) (bookings s),
                notification :=
                  Some \<lparr>type = N_success, message = ''Booking cancelled & refunded.''\<rparr>\<rparr>)
       \<and> (\<not> checkRescheduleValidity parse now b \<longrightarrow>
            handleCancelBooking parse now s i =
              s\<lparr>notification :=
                  Some \<lparr>type = N_error,
                        message = ''Cannot cancel less than 12 hours before.''\<rparr>\<rparr>
            \<and> bookings (handleCancelBooking parse now s i) = bookings s)"
proof -
  from assms have mem: "b \<in> set (bookings s)" and idb: "booking_id b = i"
    using find_first_in_set [of "\<lambda>b. booking_id b = i" "bookings s" b] by simp_all
  show ?thesis
  proof (cases "checkRescheduleValidity parse now b")
    case True
    with assms idb show ?thesis by (simp add: handleCancelBooking_def)
  next
    case False
    with assms mem show ?thesis by (simp add: handleCancelBooking_def)
  qed
qed

text \<open>
  At 09:00 on 1 January, \<^verbatim>\<open>demo-1\<close> (tomorrow 10:00, 25 hours away) is cancelled and
  \<^verbatim>\<open>demo-2\<close> (today 12:00, 3 hours away) is declined.
\<close>

theorem handleCancelBooking_iff_valid_witness:
  "find (\<lambda>b. booking_id b = ''demo-1'') (bookings sampleState) = Some sampleBooking
   \<and> checkRescheduleValidity utcParse 1893488400000 sampleBooking
   \<and> bookings (handleCancelBooking utcParse 1893488400000 sampleState ''demo-1'')
       = [sampleBookingToday]
   \<and> find (\<lambda>b. booking_id b = ''demo-2'') (bookings sampleState) = Some sampleBookingToday
   \<and> \<not> checkRescheduleValidity utcParse 1893488400000 sampleBookingToday
   \<and> bookings (handleCancelBooking utcParse 1893488400000 sampleState ''demo-2'')
       = [sampleBooking, sampleBookingToday]
   \<and> notification (handleCancelBooking utcParse 1893488400000 sampleState ''demo-2'')
       = Some \<lparr>type = N_error, message = ''Cannot cancel less than 12 hours before.''\<rparr>"
proof -
  note a = handleCancelBooking_iff_valid [OF sample_find1, of utcParse 1893488400000]
  note b = handleCancelBooking_iff_valid [OF sample_find2, of utcParse 1893488400000]
  from a sample_valid
  have "handleCancelBooking utcParse 1893488400000 sampleState ''demo-1'' =
          sampleState\<lparr>bookings := filter (\<lambda>b. booking_id b \<noteq> ''demo-1'') (bookings sampleState),
                notification :=
                  Some \<lparr>type = N_success, message = ''Booking cancelled & refunded.''\<rparr>\<rparr>"
    by blast
  then have r1: "bookings (handleCancelBooking utcParse 1893488400000 sampleState ''demo-1'')
       = [sampleBookingToday]"
    by (simp add: sample_filter1)
  from b sample_invalid
  have "handleCancelBooking utcParse 1893488400000 sampleState ''demo-2'' =
          sampleState\<lparr>notification :=
                  Some \<lparr>type = N_error,
                        message = ''Cannot cancel less than 12 hours before.''\<rparr>\<rparr>"
    by blast
  then have r2: "bookings (handleCancelBooking utcParse 1893488400000 sampleState ''demo-2'')
       = [sampleBooking, sampleBookingToday]"
    and r3: "notification (handleCancelBooking utcParse 1893488400000 sampleState ''demo-2'')
       = Some \<lparr>type = N_error, message = ''Cannot cancel less than 12 hours before.''\<rparr>"
    by (simp_all add: sample_bookings)
  from sample_find1 sample_valid r1 sample_find2 sample_invalid r2 r3 show ?thesis
    by blast
qed

text \<open>
  C8. \<open>handleRescheduleClick\<close> removes the booking \<open>b\<close> that \<^verbatim>\<open>find\<close> returns for
  the id exactly when \<open>checkRescheduleValidity\<close> holds for it. When it holds, the list
  loses the bookings of that id, the toast says that the credit is retained, and the view
  goes back to the calendar, where the choice of a new date and slot starts. When it
  does not hold, the operation is declined with the error toast
  \<^verbatim>\<open>Cannot reschedule less than 12 hours before.\<close> and the list is unchanged.
\<close>

theorem handleRescheduleClick_iff_valid:
  assumes "find (\<lambda>b. booking_id b = i) (bookings s) = Some b"
  shows "(b \<notin> set (bookings (handleRescheduleClick parse now s i))
            \<longleftrightarrow> checkRescheduleValidity parse now b)
       \<and> (checkRescheduleValidity parse now b \<longrightarrow>
            handleRescheduleClick parse now s i =
              s\<lparr>bookings := filter (\<lambda>b. booking_id b \<noteq> i) (bookings s),
                notification :=
                  Some \<lparr>type = N_info, message = ''Credit retained. Select a new date.''\<rparr>,
                view := V_calendar\<rparr>)
       \<and> (\<not> checkRescheduleValidity parse now b \<longrightarrow>
            handleRescheduleClick parse now s i =
              s\<lparr>notification :=
                  Some \<lparr>type = N_error,
                        message = ''Cannot reschedule less than 12 hours before.''\<rparr>\<rparr>
            \<and> bookings (handleRescheduleClick parse now s i) = bookings s)"
proof -
  from assms have mem: "b \<in> set (bookings s)" and idb: "booking_id b = i"
    using find_first_in_set [of "\<lambda>b. booking_id b = i" "bookings s" b] by simp_all
  show ?thesis
  proof (cases "checkRescheduleValidity parse now b")
    case True
    with assms idb show ?thesis by (simp add: handleRescheduleClick_def)
  next
    case False
    with assms mem show ?thesis by (simp add: handleRescheduleClick_def)
  qed
qed

text \<open>The same two bookings at 09:00 on 1 January, rescheduled.\<close>

theorem handleRescheduleClick_iff_valid_witness:
  "find (\<lambda>b. booking_id b = ''demo-1'') (bookings sampleState) = Some sampleBooking
   \<and> checkRescheduleValidity utcParse 1893488400000 sampleBooking
   \<and> bookings (handleRescheduleClick utcParse 1893488400000 sampleState ''demo-1'')
       = [sampleBookingToday]
   \<and> view (handleRescheduleClick utcParse 1893488400000 sampleState ''demo-1'') = V_calendar
   \<and> find (\<lambda>b. booking_id b = ''demo-2'') (bookings sampleState) = Some sampleBookingToday
   \<and> \<not> checkRescheduleValidity utcParse 1893488400000 sampleBookingToday
   \<and> bookings (handleRescheduleClick utcParse 1893488400000 sampleState ''demo-2'')
       = [sampleBooking, sampleBookingToday]
   \<and> notification (handleRescheduleClick utcParse 1893488400000 sampleState ''demo-2'')
       = Some \<lparr>type = N_error, message = ''Cannot reschedule less than 12 hours before.''\<rparr>"
proof -
  note a = handleRescheduleClick_iff_valid [OF sample_find1, of utcParse 1893488400000]
  note b = handleRescheduleClick_iff_valid [OF sample_find2, of utcParse 1893488400000]
  from a sample_valid
  have "handleRescheduleClick utcParse 1893488400000 sampleState ''demo-1'' =
          sampleState\<lparr>bookings := filter (\<lambda>b. booking_id b \<noteq> ''demo-1'') (bookings sampleState),
                notification :=
                  Some \<lparr>type = N_info, message = ''Credit retained. Select a new date.''\<rparr>,
                view := V_calendar\<rparr>"
    by blast
  then have r1: "bookings (handleRescheduleClick utcParse 1893488400000 sampleState ''demo-1'')
       = [sampleBookingToday]"
    and r0: "view (handleRescheduleClick utcParse 1893488400000 sampleState ''demo-1'') = V_calendar"
    by (simp_all add: sample_filter1)
  from b sample_invalid
  have "handleRescheduleClick utcParse 1893488400000 sampleState ''demo-2'' =
          sampleState\<lparr>notification :=
                  Some \<lparr>type = N_error,
                        message = ''Cannot reschedule less than 12 hours before.''\<rparr>\<rparr>"
    by blast
  then have r2: "bookings (handleRescheduleClick utcParse 1893488400000 sampleState ''demo-2'')
       = [sampleBooking, sampleBookingToday]"
    and r3: "notification (handleRescheduleClick utcParse 1893488400000 sampleState ''demo-2'')
       = Some \<lparr>type = N_error, message = ''Cannot reschedule less than 12 hours before.''\<rparr>"
    by (simp_all add: sample_bookings)
  from sample_find1 sample_valid r1 r0 sample_find2 sample_invalid r2 r3 show ?thesis
    by blast
qed

text \<open>
  C10. When no booking of the list has the id, \<open>handleCancelBooking\<close> and
  \<open>handleRescheduleClick\<close> both leave the list (and everything but the toast) as it
  is, and each shows the very error toast it shows for a booking inside the 12-hour
  window: there is no separate message for an id that is not found.
\<close>

theorem unknown_id_declined:
  assumes "i \<notin> booking_id ` set (bookings s)"
  shows "handleCancelBooking parse now s i =
           s\<lparr>notification :=
               Some \<lparr>type = N_error, message = ''Cannot cancel less than 12 hours before.''\<rparr>\<rparr>
       \<and> handleRescheduleClick parse now s i =
           s\<lparr>notification :=
               Some \<lparr>type = N_error,
                     message = ''Cannot reschedule less than 12 hours before.''\<rparr>\<rparr>
       \<and> bookings (handleCancelBooking parse now s i) = bookings s
       \<and> bookings (handleRescheduleClick parse now s i) = bookings s
       \<and> (\<forall>s' j b now'. find (\<lambda>b. booking_id b = j) (bookings s') = Some b
              \<and> \<not> checkRescheduleValidity parse now' b \<longrightarrow>
             notification (handleCancelBooking parse now' s' j)
               = notification (handleCancelBooking parse now s i)
           \<and> notification (handleRescheduleClick parse now' s' j)
               = notification (handleRescheduleClick parse now s i))"
proof -
  from assms have none: "find (\<lambda>b. booking_id b = i) (bookings s) = None"
    by (auto simp: find_None_iff)
  then show ?thesis
    by (simp add: handleCancelBooking_def handleRescheduleClick_def)
qed

text \<open>The id \<^verbatim>\<open>demo-3\<close> is not in the initial list.\<close>

theorem unknown_id_declined_witness:
  "''demo-3'' \<notin> booking_id ` set (bookings sampleState)
   \<and> bookings (handleCancelBooking utcParse 1893488400000 sampleState ''demo-3'')
       = [sampleBooking, sampleBookingToday]
   \<and> bookings (handleRescheduleClick utcParse 1893488400000 sampleState ''demo-3'')
       = [sampleBooking, sampleBookingToday]
   \<and> notification (handleCancelBooking utcParse 1893488400000 sampleState ''demo-3'')
       = Some \<lparr>type = N_error, message = ''Cannot cancel less than 12 hours before.''\<rparr>
   \<and> notification (handleRescheduleClick utcParse 1893488400000 sampleState ''demo-3'')
       = Some \<lparr>type = N_error, message = ''Cannot reschedule less than 12 hours before.''\<rparr>"
proof -
  have h: "''demo-3'' \<notin> booking_id ` set (bookings sampleState)"
    by (simp add: sample_bookings) (simp add: sampleBooking_def sampleBookingToday_def)
  note t = unknown_id_declined [OF h, of utcParse 1893488400000]
  from t have c: "handleCancelBooking utcParse 1893488400000 sampleState ''demo-3'' =
           sampleState\<lparr>notification :=
               Some \<lparr>type = N_error, message = ''Cannot cancel less than 12 hours before.''\<rparr>\<rparr>"
    and r: "handleRescheduleClick utcParse 1893488400000 sampleState ''demo-3'' =
           sampleState\<lparr>notification :=
               Some \<lparr>type = N_error,
                     message = ''Cannot reschedule less than 12 hours before.''\<rparr>\<rparr>"
    by blast+
  from h show ?thesis
    by (simp add: c r sample_bookings)
qed

section \<open>Availability\<close>

lemma paid_le_session:
  "length (filter (\<lambda>b. date b = d \<and> time b = tm \<and> status b = st) bs)
     \<le> length (getSessionBookings bs d tm)"
proof -
  have "filter (\<lambda>b. date b = d \<and> time b = tm \<and> status b = st) bs
          = filter (\<lambda>b. status b = st) (getSessionBookings bs d tm)"
    by (simp add: getSessionBookings_def conj_commute conj_left_commute)
  then show ?thesis by simp
qed

lemma full_imp_taken: "isSlotFull bs d tm \<Longrightarrow> isSlotTaken parse now bs d tm"
  by (simp add: isSlotTaken_def)

lemma demo_full: "length (getSessionBookings (demoBookings d c) d ''10:00'') = 40"
  by (simp add: getSessionBookings_def demoBookings_def filter_map o_def)

lemma demo_paid:
  "length (filter (\<lambda>b. date b = d \<and> time b = ''10:00'' \<and> status b = ''PAID'') (demoBookings d c)) = 40"
  by (simp add: demoBookings_def filter_map o_def)

lemma demo_almost: "length (filter (\<lambda>b. date b = d \<and> time b = ''12:00'') (demoBookings d c)) = 39"
  by (simp add: demoBookings_def filter_map o_def)

lemma full_date_string:
  "getLocalDateString \<lparr>getTime = 1893456000000, getFullYear = 2030, getMonth = 0, getDate = 1\<rparr>
     = ''2030-01-01''"
  by code_simp

text \<open>
  C3. \<open>isSlotTaken\<close> is true exactly when the slot is full, or the slot's date and time
  parse to a time value strictly before \<open>now\<close>, or the list already has a booking for
  that date and time. In particular a slot whose start lies before \<open>now\<close> is taken
  whatever the list holds.
\<close>

theorem isSlotTaken_cases:
  "(isSlotTaken parse now bs d tm \<longleftrightarrow>
      isSlotFull bs d tm
      \<or> (\<exists>t. parse (d @ ''T'' @ tm) = Some t \<and> t < now)
      \<or> (\<exists>b \<in> set bs. date b = d \<and> time b = tm))
   \<and> (\<forall>t. parse (d @ ''T'' @ tm) = Some t \<and> t < now \<longrightarrow> isSlotTaken parse now bs d tm)"
proof -
  have h: "hasUserBookedSession bs d tm \<longleftrightarrow> (\<exists>b \<in> set bs. date b = d \<and> time b = tm)"
    by (auto simp: hasUserBookedSession_def getSessionBookings_def filter_empty_conv)
  have p: "num_lt (parse (d @ ''T'' @ tm)) now \<longleftrightarrow> (\<exists>t. parse (d @ ''T'' @ tm) = Some t \<and> t < now)"
    by (simp add: num_lt_def split: option.split)
  have "isSlotTaken parse now bs d tm \<longleftrightarrow>
      isSlotFull bs d tm \<or> num_lt (parse (d @ ''T'' @ tm)) now \<or> hasUserBookedSession bs d tm"
    by (simp add: isSlotTaken_def Let_def)
  with h p show ?thesis by blast
qed

text \<open>
  In the initial list: 1 January 10:00 has no booking and is taken one millisecond after
  its start but not at its start; 2 January 10:00 is booked; 3 January 15:00 is free; and
  a session with 40 bookings is taken.
\<close>

theorem isSlotTaken_cases_witness:
  "isSlotTaken utcParse 1893492000001 (bookings sampleState) ''2030-01-01'' ''10:00''
   \<and> \<not> isSlotTaken utcParse 1893492000000 (bookings sampleState) ''2030-01-01'' ''10:00''
   \<and> isSlotTaken utcParse 1893488400000 (bookings sampleState) ''2030-01-02'' ''10:00''
   \<and> \<not> isSlotTaken utcParse 1893488400000 (bookings sampleState) ''2030-01-03'' ''15:00''
   \<and> isSlotTaken utcParse 1893488400000 (demoBookings ''2030-01-03'' ''2030-01-01T09:00:00.000Z'')
        ''2030-01-03'' ''10:00''"
proof -
  have p: "utcParse (''2030-01-01'' @ ''T'' @ ''10:00'') = Some 1893492000000"
    by (simp add: utcParse_def)
  have nf: "\<not> isSlotFull (bookings sampleState) d tm" for d tm
    by (simp add: isSlotFull_def getSessionBookings_def MAX_SEATS_PER_SESSION_def
        sample_bookings)
  have a: "isSlotTaken utcParse 1893492000001 (bookings sampleState) ''2030-01-01'' ''10:00''"
    using isSlotTaken_cases [of utcParse 1893492000001 "bookings sampleState" "''2030-01-01''" "''10:00''"] p
    by simp
  have b: "\<not> isSlotTaken utcParse 1893492000000 (bookings sampleState) ''2030-01-01'' ''10:00''"
    using isSlotTaken_cases [of utcParse 1893492000000 "bookings sampleState" "''2030-01-01''" "''10:00''"] p nf
    by (simp add: sample_bookings sampleBooking_def sampleBookingToday_def)
  have c: "isSlotTaken utcParse 1893488400000 (bookings sampleState) ''2030-01-02'' ''10:00''"
    using isSlotTaken_cases [of utcParse 1893488400000 "bookings sampleState" "''2030-01-02''" "''10:00''"]
    by (simp add: sample_bookings sampleBooking_def)
  have d: "\<not> isSlotTaken utcParse 1893488400000 (bookings sampleState) ''2030-01-03'' ''15:00''"
    using isSlotTaken_cases [of utcParse 1893488400000 "bookings sampleState" "''2030-01-03''" "''15:00''"] nf
    by (simp add: sample_bookings sampleBooking_def sampleBookingToday_def utcParse_def)
  have "isSlotFull (demoBookings ''2030-01-03'' ''2030-01-01T09:00:00.000Z'') ''2030-01-03'' ''10:00''"
    by (simp add: isSlotFull_def demo_full MAX_SEATS_PER_SESSION_def)
  then have e: "isSlotTaken utcParse 1893488400000
        (demoBookings ''2030-01-03'' ''2030-01-01T09:00:00.000Z'') ''2030-01-03'' ''10:00''"
    using isSlotTaken_cases [of utcParse 1893488400000 "demoBookings ''2030-01-03'' ''2030-01-01T09:00:00.000Z''"
        "''2030-01-03''" "''10:00''"]
    by simp
  from a b c d e show ?thesis by blast
qed

text \<open>
  C4. \<open>isSlotFull\<close> is true exactly when at least 40 bookings of the list have that
  date and time. When 40 of them are PAID the slot is full, hence taken, and a click on
  the slot's button (for a selected date with that date string) leaves the state as it
  is: no pending booking is made for the session.
\<close>

theorem isSlotFull_seat_cap:
  "(isSlotFull bs d tm \<longleftrightarrow> 40 \<le> length (filter (\<lambda>b. date b = d \<and> time b = tm) bs))
   \<and> (40 \<le> length (filter (\<lambda>b. date b = d \<and> time b = tm \<and> status b = ''PAID'') bs) \<longrightarrow>
        isSlotFull bs d tm
        \<and> isSlotTaken parse now bs d tm
        \<and> (\<forall>s sel rnd nowIso.
              bookings s = bs \<and> selectedDate s = Some sel \<and> getLocalDateString sel = d \<longrightarrow>
              dispatch parse formatDate s (SlotClick tm now rnd nowIso) = s))"
proof -
  have a: "isSlotFull bs d tm \<longleftrightarrow> 40 \<le> length (filter (\<lambda>b. date b = d \<and> time b = tm) bs)"
    by (simp add: isSlotFull_def getSessionBookings_def MAX_SEATS_PER_SESSION_def)
  have b: "isSlotFull bs d tm"
    if "40 \<le> length (filter (\<lambda>b. date b = d \<and> time b = tm \<and> status b = ''PAID'') bs)"
    using that paid_le_session [of d tm "''PAID''" bs]
    by (simp add: isSlotFull_def MAX_SEATS_PER_SESSION_def)
  have c: "dispatch parse formatDate s (SlotClick tm now rnd nowIso) = s"
    if "isSlotFull bs d tm" "bookings s = bs" "selectedDate s = Some sel"
       "getLocalDateString sel = d" for s sel rnd nowIso
    using that full_imp_taken [of bs d tm parse now] by (simp add: slotButtonDisabled_def)
  from a b c full_imp_taken show ?thesis by blast
qed

text \<open>
  In \<open>demoBookings\<close> the 10:00 session holds 40 PAID bookings and is full, the 12:00
  session holds 39 and is not.
\<close>

theorem isSlotFull_seat_cap_witness:
  "40 \<le> length (filter (\<lambda>b. date b = ''2030-01-01'' \<and> time b = ''10:00'' \<and> status b = ''PAID'')
           (bookings fullSessionState))
   \<and> isSlotFull (bookings fullSessionState) ''2030-01-01'' ''10:00''
   \<and> \<not> isSlotFull (bookings fullSessionState) ''2030-01-01'' ''12:00''
   \<and> isSlotTaken utcParse 1893488405000 (bookings fullSessionState) ''2030-01-01'' ''10:00''
   \<and> dispatch utcParse sampleFormat fullSessionState
        (SlotClick ''10:00'' 1893488405000 ''r4nd0m1dx'' ''2030-01-01T09:00:05.000Z'')
       = fullSessionState"
proof -
  have bs: "bookings fullSessionState = demoBookings ''2030-01-01'' ''2030-01-01T09:00:00.000Z''"
    by (simp add: fullSessionState_def)
  have h: "40 \<le> length (filter (\<lambda>b. date b = ''2030-01-01'' \<and> time b = ''10:00''
              \<and> status b = ''PAID'') (bookings fullSessionState))"
    by (simp add: bs demo_paid)
  have sel: "selectedDate fullSessionState
      = Some \<lparr>getTime = 1893456000000, getFullYear = 2030, getMonth = 0, getDate = 1\<rparr>"
    by (simp add: fullSessionState_def)
  note t = isSlotFull_seat_cap [of "bookings fullSessionState" "''2030-01-01''" "''10:00''" utcParse
      1893488405000 sampleFormat]
  note u = isSlotFull_seat_cap [of "bookings fullSessionState" "''2030-01-01''" "''12:00''" utcParse
      1893488405000 sampleFormat]
  from t h have f: "isSlotFull (bookings fullSessionState) ''2030-01-01'' ''10:00''"
    and k: "isSlotTaken utcParse 1893488405000 (bookings fullSessionState) ''2030-01-01'' ''10:00''"
    and c: "\<forall>s sel rnd nowIso.
              bookings s = bookings fullSessionState \<and> selectedDate s = Some sel
                \<and> getLocalDateString sel = ''2030-01-01'' \<longrightarrow>
              dispatch utcParse sampleFormat s (SlotClick ''10:00'' 1893488405000 rnd nowIso) = s"
    by blast+
  from c sel full_date_string
  have d: "dispatch utcParse sampleFormat fullSessionState
        (SlotClick ''10:00'' 1893488405000 ''r4nd0m1dx'' ''2030-01-01T09:00:05.000Z'')
       = fullSessionState"
    by blast
  from u have n: "\<not> isSlotFull (bookings fullSessionState) ''2030-01-01'' ''12:00''"
    by (simp add: bs demo_almost)
  from h f n k d show ?thesis by blast
qed

lemma TIME_SLOTS_value:
  "TIME_SLOTS = [''10:00'', ''11:00'', ''12:00'', ''13:00'', ''14:00'', ''15:00'',
                 ''16:00'', ''17:00'', ''18:00'', ''19:00'', ''20:00'', ''21:00'']"
  unfolding TIME_SLOTS_def generateTimeSlots_def by code_simp

lemma length_TIME_SLOTS: "length TIME_SLOTS = 12"
  by (simp add: TIME_SLOTS_value)

text \<open>
  C7. \<open>isDateFull\<close> is true exactly when at least 12 bookings of the list are on that
  date: the threshold is the number of slots of the 10:00 to 22:00 schedule (12) times
  \<open>MAX_CAPACITY_PER_SLOT\<close> (1), which is below the seat cap of 40 that \<open>isSlotFull\<close>
  uses for one session.
\<close>

theorem isDateFull_threshold:
  "(isDateFull bs d \<longleftrightarrow> 12 \<le> length (filter (\<lambda>b. date b = d) bs))
   \<and> TIME_SLOTS = [''10:00'', ''11:00'', ''12:00'', ''13:00'', ''14:00'', ''15:00'',
                    ''16:00'', ''17:00'', ''18:00'', ''19:00'', ''20:00'', ''21:00'']
   \<and> length TIME_SLOTS = TOTAL_SLOTS_PER_DAY
   \<and> TOTAL_SLOTS_PER_DAY = 12
   \<and> MAX_CAPACITY_PER_SLOT = 1
   \<and> length TIME_SLOTS * MAX_CAPACITY_PER_SLOT = 12
   \<and> length TIME_SLOTS * MAX_CAPACITY_PER_SLOT < MAX_SEATS_PER_SESSION
   \<and> MAX_SEATS_PER_SESSION = 40"
  using TIME_SLOTS_value
  by (simp add: isDateFull_def length_TIME_SLOTS MAX_CAPACITY_PER_SLOT_def
      MAX_SEATS_PER_SESSION_def TOTAL_SLOTS_PER_DAY_def CLOSING_HOUR_def OPENING_HOUR_def)

section \<open>Finalizing a booking\<close>







lemma finalizeBooking_closure_same:
  "finalizeBooking_closure formatDate s s = finalizeBooking formatDate s"
  by (simp add: finalizeBooking_closure_def finalizeBooking_def)

lemma finalizeBooking_closure_bookings:
  assumes "pendingBooking r = Some p" and "selectedDate r = Some d"
  shows "bookings (finalizeBooking_closure formatDate r s)
           = bookings r @ [p\<lparr>status := ''PAID'', amount := price p\<rparr>]"
  using assms by (simp add: finalizeBooking_closure_def)


lemma sampleDay_string: "getLocalDateString sampleDay = ''2030-01-03''"
  unfolding sampleDay_def by code_simp

lemma paymentRender_value:
  "paymentRender =
     \<lparr>selectedDate = Some sampleDay, view = V_payment, pendingBooking = Some samplePending,
      showXenditModal = True, paymentStatus = P_idle,
      bookings = [sampleBooking, sampleBookingToday], notification = None\<rparr>"
  by (simp add: paymentRender_def handleInitiatePayment_def handleSlotSelection_def
      handleDayClick_def sampleState_def initialState_def initialBookings_def
      sampleDay_string samplePending_def sampleBooking_def sampleBookingToday_def
      sampleDay_def [THEN arg_cong [where f = getTime]])

lemma select_pay_button:
  "foldl (step utcParse sampleFormat) (start sampleState) (selectEvents @ [InitiatePayment])
     = start paymentRender"
  by (simp add: selectEvents_def start_def paymentRender_def slotButtonDisabled_def
      handleDayClick_def sampleDay_string isSlotTaken_def isSlotFull_def
      hasUserBookedSession_def getSessionBookings_def MAX_SEATS_PER_SESSION_def num_lt_def
      utcParse_def sample_bookings sampleBooking_def sampleBookingToday_def
      sampleDay_def [THEN arg_cong [where f = getTime]])

lemma select_pay_button_split:
  "foldl (step utcParse sampleFormat)
     (foldl (step utcParse sampleFormat) (start sampleState) selectEvents) [InitiatePayment]
     = start paymentRender"
  using select_pay_button by (simp only: foldl_append)

lemma rebook_split:
  "rebookEvents =
     (selectEvents @ [InitiatePayment])
     @ [ConfirmPayment, ProcessingTimer paymentRender, SuccessTimer paymentRender,
        SetView V_calendar]
     @ selectEvents"
  by (simp add: rebookEvents_def payEvents_def firstTimers_def)

lemma rebook_run:
  "foldl (step utcParse sampleFormat) (start sampleState) rebookEvents =
     \<lparr>ui = \<lparr>selectedDate = Some sampleDay, view = V_slots, pendingBooking = None,
             showXenditModal = False, paymentStatus = P_success,
             bookings = [sampleBooking, sampleBookingToday,
                         samplePending\<lparr>status := ''PAID'', amount := Some 50000\<rparr>],
             notification =
               Some \<lparr>type = N_success,
                     message = ''Payment successful! Booked for Thu, Jan 3, 2030 at 15:00''\<rparr>\<rparr>,
      processingTimers = [], successTimers = []\<rparr>"
  by (simp only: rebook_split foldl_append select_pay_button_split)
     (simp add: start_def paymentRender_value finalizeBooking_closure_def selectEvents_def
        handleDayClick_def slotButtonDisabled_def sampleDay_string isSlotTaken_def
        isSlotFull_def hasUserBookedSession_def getSessionBookings_def
        MAX_SEATS_PER_SESSION_def num_lt_def utcParse_def samplePending_def
        sampleBooking_def sampleBookingToday_def sampleFormat_def TICKET_PRICE_def
        sampleDay_def [THEN arg_cong [where f = getTime]]
        sampleDay_def [THEN arg_cong [where f = getDate]])

lemma overlap_split:
  "overlapEvents =
     (selectEvents @ [InitiatePayment])
     @ [ConfirmPayment, CloseModal, SetView V_slots, ProcessingTimer paymentRender,
        SlotClick ''16:00'' 1893488408000 ''b2ndpick7'' ''2030-01-01T09:00:08.000Z'',
        InitiatePayment, ConfirmPayment, SuccessTimer paymentRender]"
  by (simp add: overlapEvents_def)

lemma overlap_run:
  "foldl (step utcParse sampleFormat) (start sampleState) overlapEvents =
     \<lparr>ui = \<lparr>selectedDate = Some sampleDay, view = V_dashboard, pendingBooking = None,
             showXenditModal = False, paymentStatus = P_processing,
             bookings = [sampleBooking, sampleBookingToday,
                         samplePending\<lparr>status := ''PAID'', amount := Some 50000\<rparr>],
             notification =
               Some \<lparr>type = N_success,
                     message = ''Payment successful! Booked for Thu, Jan 3, 2030 at 15:00''\<rparr>\<rparr>,
      processingTimers = [secondPaymentRender], successTimers = []\<rparr>"
  by (simp only: overlap_split foldl_append select_pay_button_split)
     (simp add: start_def secondPaymentRender_def paymentRender_value
        finalizeBooking_closure_def handleInitiatePayment_def handleSlotSelection_def
        slotButtonDisabled_def sampleDay_string isSlotTaken_def
        isSlotFull_def hasUserBookedSession_def getSessionBookings_def
        MAX_SEATS_PER_SESSION_def num_lt_def utcParse_def samplePending_def samplePending2_def
        sampleBooking_def sampleBookingToday_def sampleFormat_def TICKET_PRICE_def
        sampleDay_def [THEN arg_cong [where f = getDate]])

lemma overtaken_run:
  "foldl (step utcParse sampleFormat) (start sampleState) (overlapEvents @ secondTimers) =
     \<lparr>ui = \<lparr>selectedDate = Some sampleDay, view = V_dashboard, pendingBooking = None,
             showXenditModal = False, paymentStatus = P_success,
             bookings = [sampleBooking, sampleBookingToday,
                         samplePending2\<lparr>status := ''PAID'', amount := Some 50000\<rparr>],
             notification =
               Some \<lparr>type = N_success,
                     message = ''Payment successful! Booked for Thu, Jan 3, 2030 at 16:00''\<rparr>\<rparr>,
      processingTimers = [], successTimers = []\<rparr>"
  by (simp only: foldl_append overlap_run)
     (simp add: secondTimers_def secondPaymentRender_def paymentRender_value
        finalizeBooking_closure_def samplePending2_def sampleFormat_def TICKET_PRICE_def
        sampleDay_def [THEN arg_cong [where f = getDate]])

lemma cancel_split:
  "cancelDuringPayment =
     (selectEvents @ [InitiatePayment])
     @ [ConfirmPayment, CloseModal, SetView V_dashboard, CancelClick ''demo-1'' 1893488407000]"
  by (simp add: cancelDuringPayment_def)

lemma sample_valid_later: "checkRescheduleValidity utcParse 1893488407000 sampleBooking"
  by (simp add: checkRescheduleValidity_def utcParse_def num_lt_def sampleBooking_def
      hours_gt_12)

lemma cancel_run:
  "foldl (step utcParse sampleFormat) (start sampleState) cancelDuringPayment =
     \<lparr>ui = \<lparr>selectedDate = Some sampleDay, view = V_dashboard,
             pendingBooking = Some samplePending,
             showXenditModal = False, paymentStatus = P_processing,
             bookings = [sampleBookingToday],
             notification =
               Some \<lparr>type = N_success, message = ''Booking cancelled & refunded.''\<rparr>\<rparr>,
      processingTimers = [paymentRender], successTimers = []\<rparr>"
  by (simp only: cancel_split foldl_append select_pay_button_split)
     (simp add: start_def paymentRender_value handleCancelBooking_def
        sample_valid_later, simp add: sampleBooking_def sampleBookingToday_def)

lemma restored_run:
  "foldl (step utcParse sampleFormat) (start sampleState) (cancelDuringPayment @ firstTimers) =
     \<lparr>ui = \<lparr>selectedDate = Some sampleDay, view = V_dashboard, pendingBooking = None,
             showXenditModal = False, paymentStatus = P_success,
             bookings = [sampleBooking, sampleBookingToday,
                         samplePending\<lparr>status := ''PAID'', amount := Some 50000\<rparr>],
             notification =
               Some \<lparr>type = N_success,
                     message = ''Payment successful! Booked for Thu, Jan 3, 2030 at 15:00''\<rparr>\<rparr>,
      processingTimers = [], successTimers = []\<rparr>"
  by (simp only: foldl_append cancel_run)
     (simp add: firstTimers_def paymentRender_value
        finalizeBooking_closure_def samplePending_def sampleFormat_def TICKET_PRICE_def
        sampleDay_def [THEN arg_cong [where f = getDate]])

text \<open>
  C5. The claim is that finalizing a pending booking of status PENDING appends it, as
  PAID with \<open>amount\<close> equal to its price, to the booking list, that the list grows by
  exactly one, and that no booking of the list is modified or removed. The program does
  not do that when the list has changed between the payment click and the timer:
  \<open>finalizeBooking\<close> writes the list of the click's render plus the new booking over
  the current list (\<open>finalizeBooking_closure_bookings\<close>). Two runs from the initial state
  show it. With two overlapping payments, the booking list holds the paid 15:00 booking
  when the second payment, whose pending booking has status PENDING, is finalized;
  afterwards the list has the same length and the paid 15:00 booking is gone. With a
  cancellation during a payment, the list holds only \<^verbatim>\<open>demo-2\<close> when the payment is
  finalized; afterwards it has three entries and the cancelled \<^verbatim>\<open>demo-1\<close> is back.
\<close>

theorem finalizeBooking_overwrites_list:
  "pendingBooking secondPaymentRender = Some samplePending2
   \<and> status samplePending2 = ''PENDING''
   \<and> bookings (run utcParse sampleFormat sampleState overlapEvents)
       = [sampleBooking, sampleBookingToday,
          samplePending\<lparr>status := ''PAID'', amount := Some 50000\<rparr>]
   \<and> bookings (run utcParse sampleFormat sampleState (overlapEvents @ secondTimers))
       = [sampleBooking, sampleBookingToday,
          samplePending2\<lparr>status := ''PAID'', amount := Some 50000\<rparr>]
   \<and> length (bookings (run utcParse sampleFormat sampleState (overlapEvents @ secondTimers)))
       = length (bookings (run utcParse sampleFormat sampleState overlapEvents))
   \<and> samplePending\<lparr>status := ''PAID'', amount := Some 50000\<rparr>
       \<notin> set (bookings (run utcParse sampleFormat sampleState (overlapEvents @ secondTimers)))
   \<and> pendingBooking paymentRender = Some samplePending
   \<and> status samplePending = ''PENDING''
   \<and> bookings (run utcParse sampleFormat sampleState cancelDuringPayment)
       = [sampleBookingToday]
   \<and> bookings (run utcParse sampleFormat sampleState (cancelDuringPayment @ firstTimers))
       = [sampleBooking, sampleBookingToday,
          samplePending\<lparr>status := ''PAID'', amount := Some 50000\<rparr>]"
proof -
  have a: "pendingBooking secondPaymentRender = Some samplePending2"
    by (simp add: secondPaymentRender_def)
  have b: "status samplePending2 = ''PENDING''"
    by (simp add: samplePending2_def)
  have c: "bookings (run utcParse sampleFormat sampleState overlapEvents)
       = [sampleBooking, sampleBookingToday,
          samplePending\<lparr>status := ''PAID'', amount := Some 50000\<rparr>]"
    by (simp add: run_def overlap_run)
  have d: "bookings (run utcParse sampleFormat sampleState (overlapEvents @ secondTimers))
       = [sampleBooking, sampleBookingToday,
          samplePending2\<lparr>status := ''PAID'', amount := Some 50000\<rparr>]"
    by (simp only: run_def overtaken_run) simp
  have e: "samplePending\<lparr>status := ''PAID'', amount := Some 50000\<rparr>
       \<notin> set [sampleBooking, sampleBookingToday,
          samplePending2\<lparr>status := ''PAID'', amount := Some 50000\<rparr>]"
    by (simp add: samplePending_def samplePending2_def sampleBooking_def
        sampleBookingToday_def)
  have f: "pendingBooking paymentRender = Some samplePending"
    by (simp add: paymentRender_value)
  have g: "status samplePending = ''PENDING''"
    by (simp add: samplePending_def)
  have h: "bookings (run utcParse sampleFormat sampleState cancelDuringPayment)
       = [sampleBookingToday]"
    by (simp add: run_def cancel_run)
  have i: "bookings (run utcParse sampleFormat sampleState (cancelDuringPayment @ firstTimers))
       = [sampleBooking, sampleBookingToday,
          samplePending\<lparr>status := ''PAID'', amount := Some 50000\<rparr>]"
    by (simp only: run_def restored_run) simp
  from a b c d e f g h i show ?thesis by simp
qed



section \<open>One booking per session\<close>

lemma distinct_key_count:
  "distinct (map f xs) \<Longrightarrow> length (filter (\<lambda>x. f x = k) xs) \<le> 1"
  by (induction xs) (auto simp: filter_empty_conv image_iff)

lemma not_taken_no_session:
  assumes "\<not> isSlotTaken parse now bs d tm"
  shows "(d, tm) \<notin> set (map sessionKey bs)"
proof -
  from assms have "\<not> hasUserBookedSession bs d tm"
    by (simp add: isSlotTaken_def Let_def split: if_splits)
  then have "getSessionBookings bs d tm = []"
    by (simp add: hasUserBookedSession_def)
  then show ?thesis
    by (auto simp: getSessionBookings_def filter_empty_conv sessionKey_def)
qed

lemma inv_init: "oneBookingPerSession (initialState a b c e)"
  by (simp add: oneBookingPerSession_def initialState_def initialBookings_def sessionKey_def)

lemma inv_dayClick: "oneBookingPerSession s \<Longrightarrow> oneBookingPerSession (handleDayClick s d today)"
  by (simp add: oneBookingPerSession_def handleDayClick_def)

lemma inv_slotClick:
  assumes "oneBookingPerSession s"
  shows "oneBookingPerSession (dispatch parse formatDate s (SlotClick tm now rnd nowIso))"
proof (cases "selectedDate s")
  case None
  with assms show ?thesis by (simp add: handleSlotSelection_def)
next
  case (Some d)
  show ?thesis
  proof (cases "slotButtonDisabled parse now s tm")
    case True
    with assms show ?thesis by simp
  next
    case False
    with Some have "\<not> isSlotTaken parse now (bookings s) (getLocalDateString d) tm"
      by (simp add: slotButtonDisabled_def)
    then have "(getLocalDateString d, tm) \<notin> set (map sessionKey (bookings s))"
      by (rule not_taken_no_session)
    with assms Some False show ?thesis
      by (simp add: handleSlotSelection_def oneBookingPerSession_def Let_def sessionKey_def)
  qed
qed

lemma inv_finalize_closure:
  assumes "oneBookingPerSession r" and "oneBookingPerSession s"
  shows "oneBookingPerSession (finalizeBooking_closure formatDate r s)"
  using assms
  by (auto simp: finalizeBooking_closure_def oneBookingPerSession_def sessionKey_def
      split: option.splits)

lemma inv_filter:
  assumes "oneBookingPerSession s"
  shows "oneBookingPerSession (s\<lparr>bookings := filter P (bookings s)\<rparr>)"
  using assms
  by (auto simp: oneBookingPerSession_def distinct_map_filter split: option.splits)

lemma inv_notification:
  "oneBookingPerSession (s\<lparr>notification := n\<rparr>) = oneBookingPerSession s"
  by (simp add: oneBookingPerSession_def)

lemma inv_view:
  "oneBookingPerSession (s\<lparr>view := v\<rparr>) = oneBookingPerSession s"
  by (simp add: oneBookingPerSession_def)

lemma inv_paymentStatus:
  "oneBookingPerSession (s\<lparr>paymentStatus := v\<rparr>) = oneBookingPerSession s"
  by (simp add: oneBookingPerSession_def)

lemma inv_cancel:
  assumes "oneBookingPerSession s"
  shows "oneBookingPerSession (handleCancelBooking parse now s i)"
proof -
  have "handleCancelBooking parse now s i = (s\<lparr>notification := notification (handleCancelBooking parse now s i)\<rparr>)
     \<or> handleCancelBooking parse now s i = (s\<lparr>bookings := filter (\<lambda>b. booking_id b \<noteq> i) (bookings s)\<rparr>)
           \<lparr>notification := notification (handleCancelBooking parse now s i)\<rparr>"
    by (simp add: handleCancelBooking_def Let_def)
  with assms inv_filter [OF assms, of "\<lambda>b. booking_id b \<noteq> i"] show ?thesis
    by (metis inv_notification)
qed

lemma inv_reschedule:
  assumes "oneBookingPerSession s"
  shows "oneBookingPerSession (handleRescheduleClick parse now s i)"
proof -
  have "handleRescheduleClick parse now s i = (s\<lparr>notification := notification (handleRescheduleClick parse now s i)\<rparr>)
     \<or> handleRescheduleClick parse now s i = (s\<lparr>bookings := filter (\<lambda>b. booking_id b \<noteq> i) (bookings s)\<rparr>)
           \<lparr>notification := notification (handleRescheduleClick parse now s i), view := V_calendar\<rparr>"
    by (simp add: handleRescheduleClick_def Let_def)
  with assms inv_filter [OF assms, of "\<lambda>b. booking_id b \<noteq> i"] show ?thesis
    by (metis inv_notification inv_view)
qed

lemma inv_dispatch:
  assumes "oneBookingPerSession s" and "\<forall>r. e \<noteq> SuccessTimer r"
  shows "oneBookingPerSession (dispatch parse formatDate s e)"
proof (cases e)
  case (SlotClick tm now rnd nowIso)
  with assms(1) show ?thesis using inv_slotClick by simp
next
  case (SuccessTimer r)
  with assms(2) show ?thesis by simp
qed (use assms(1) in \<open>simp_all add: inv_dayClick inv_cancel inv_reschedule inv_view
      inv_paymentStatus\<close>,
     simp_all add: oneBookingPerSession_def handleInitiatePayment_def)

lemma in_remove1_in_set: "x \<in> set (remove1 y xs) \<Longrightarrow> x \<in> set xs"
  using set_remove1_subset [of y xs] by blast

lemma list_all_remove1: "list_all P xs \<Longrightarrow> list_all P (remove1 x xs)"
  by (auto simp: list_all_iff dest: in_remove1_in_set)

lemma inv_step:
  assumes "machineInv m"
  shows "machineInv (step parse formatDate m e)"
proof (cases e)
  case ConfirmPayment
  with assms show ?thesis
    by (simp add: machineInv_def inv_paymentStatus)
next
  case (ProcessingTimer r)
  with assms show ?thesis
    by (auto simp: machineInv_def inv_paymentStatus list_all_iff dest: in_remove1_in_set)
next
  case (SuccessTimer r)
  show ?thesis
  proof (cases "r \<in> set (successTimers m)")
    case True
    with assms have "oneBookingPerSession r"
      by (simp add: machineInv_def list_all_iff)
    with assms True SuccessTimer show ?thesis
      by (simp add: machineInv_def inv_finalize_closure list_all_remove1)
  next
    case False
    with assms SuccessTimer show ?thesis by simp
  qed
qed (use assms in \<open>simp_all add: machineInv_def inv_dispatch del: dispatch.simps\<close>)

lemma inv_foldl:
  "machineInv m \<Longrightarrow> machineInv (foldl (step parse formatDate) m evs)"
  by (induction evs arbitrary: m) (simp_all add: inv_step)

lemma inv_run:
  "oneBookingPerSession s \<Longrightarrow> oneBookingPerSession (run parse formatDate s evs)"
proof -
  assume "oneBookingPerSession s"
  then have "machineInv (start s)"
    by (simp add: machineInv_def start_def)
  then have "machineInv (foldl (step parse formatDate) (start s) evs)"
    by (rule inv_foldl)
  then show ?thesis
    by (simp add: machineInv_def run_def)
qed

lemma inv_paid_count:
  assumes "oneBookingPerSession s"
  shows "length (filter (\<lambda>b. date b = d \<and> time b = tm \<and> status b = ''PAID'') (bookings s)) \<le> 1"
proof -
  from assms have "distinct (map sessionKey (bookings s))"
    by (simp add: oneBookingPerSession_def)
  then have "length (filter (\<lambda>b. sessionKey b = (d, tm)) (bookings s)) \<le> 1"
    by (rule distinct_key_count)
  then have "length (getSessionBookings (bookings s) d tm) \<le> 1"
    by (simp add: getSessionBookings_def sessionKey_def)
  with paid_le_session [of d tm "''PAID''" "bookings s"] show ?thesis by simp
qed

text \<open>
  C6. In every state that a sequence of events reaches from the initial state (day and
  slot clicks, the slot button being disabled when \<open>isSlotTaken\<close> holds, payment
  clicks and their timers, each timer finalizing with the values of the render of its
  click, cancelling, rescheduling, navigation), the list holds at most one PAID booking
  for any date and time. The initial list, whatever the clock says, has its two bookings
  at 10:00 and at 12:00.
\<close>

theorem one_paid_booking_per_session:
  "length (filter (\<lambda>b. date b = d \<and> time b = tm \<and> status b = ''PAID'')
     (bookings (run parse formatDate (initialState tomorrowIso todayIso created1 created2) evs))) \<le> 1"
  by (rule inv_paid_count) (rule inv_run, rule inv_init)

text \<open>
  Booking 3 January 15:00, paying, and trying the same slot again: the second click finds
  the button disabled, so the list ends with one booking for that session. And in the
  run of the two overlapping payments the list ends with one booking for 16:00 and none
  for 15:00.
\<close>

theorem one_paid_booking_per_session_witness:
  "length (filter (\<lambda>b. date b = ''2030-01-03'' \<and> time b = ''15:00'' \<and> status b = ''PAID'')
     (bookings (run utcParse sampleFormat sampleState rebookEvents))) \<le> 1
   \<and> bookings (run utcParse sampleFormat sampleState rebookEvents)
       = [sampleBooking, sampleBookingToday,
          samplePending\<lparr>status := ''PAID'', amount := Some 50000\<rparr>]
   \<and> length (filter (\<lambda>b. date b = ''2030-01-03'' \<and> time b = ''16:00'' \<and> status b = ''PAID'')
     (bookings (run utcParse sampleFormat sampleState (overlapEvents @ secondTimers)))) \<le> 1
   \<and> bookings (run utcParse sampleFormat sampleState (overlapEvents @ secondTimers))
       = [sampleBooking, sampleBookingToday,
          samplePending2\<lparr>status := ''PAID'', amount := Some 50000\<rparr>]"
proof -
  have a: "length (filter (\<lambda>b. date b = ''2030-01-03'' \<and> time b = ''15:00'' \<and> status b = ''PAID'')
     (bookings (run utcParse sampleFormat sampleState rebookEvents))) \<le> 1"
    unfolding sampleState_def by (rule one_paid_booking_per_session)
  have b: "bookings (run utcParse sampleFormat sampleState rebookEvents)
       = [sampleBooking, sampleBookingToday,
          samplePending\<lparr>status := ''PAID'', amount := Some 50000\<rparr>]"
    by (simp only: run_def rebook_run) simp
  have c: "length (filter (\<lambda>b. date b = ''2030-01-03'' \<and> time b = ''16:00'' \<and> status b = ''PAID'')
     (bookings (run utcParse sampleFormat sampleState (overlapEvents @ secondTimers)))) \<le> 1"
    unfolding sampleState_def by (rule one_paid_booking_per_session)
  have d: "bookings (run utcParse sampleFormat sampleState (overlapEvents @ secondTimers))
       = [sampleBooking, sampleBookingToday,
          samplePending2\<lparr>status := ''PAID'', amount := Some 50000\<rparr>]"
    by (simp only: run_def overtaken_run) simp
  from a b c d show ?thesis by blast
qed

end
